theory Spec2Isabelle
  imports Main "HOL-Library.Sublist"
begin

section \<open>Directives of gslab\_make: a shallow embedding of programdirective.py\<close>

text \<open>
  The module \<^verbatim>\<open>gslab_make_dev/private/programdirective.py\<close> holds the classes
  \<^verbatim>\<open>Directive\<close>, \<^verbatim>\<open>ProgramDirective\<close>, \<^verbatim>\<open>SASDirective\<close> and
  \<^verbatim>\<open>LyxDirective\<close>. Each class is a record here (a subclass extends the record of
  its parent), each method a function that takes the object and, where the method
  touches them, the file system, the console and the process-wide flag, and returns
  them updated. A raised exception is the left summand of the result.

  Strings are lists of characters read as code points below 256. The file system is a
  finite map from paths to the contents of regular files: two different path strings
  are two different files, and opening a file for writing always succeeds.

  The module is read as Python 3 runs it: the pipes of a child process and the contents
  of a file are bytes, the text of the program is \<^verbatim>\<open>str\<close>, and the two do not mix.
  Both are lists of characters here; \<open>bytes\<close> marks the places where the program
  holds bytes.
\<close>

type_synonym bytes = string

subsection \<open>Exceptions\<close>

datatype error =
    CritError string
  | KeyError string
  | AttributeError string
  | IOError string
  | UnicodeEncodeError string

subsection \<open>Collaborators that the module imports\<close>

text \<open>
  The modules \<^verbatim>\<open>messages\<close>, \<^verbatim>\<open>metadata\<close> and \<^verbatim>\<open>utility\<close> are imported by
  programdirective.py and are not part of it, so they are parameters of the model.
  A message of \<^verbatim>\<open>messages\<close> is a template with one \<^verbatim>\<open>%s\<close>: the text before
  and the text after the placeholder. The tables of \<^verbatim>\<open>metadata\<close> are dictionaries;
  a missing key raises \<^verbatim>\<open>KeyError\<close>. The process primitive
  \<^verbatim>\<open>subprocess.Popen\<close> followed by \<^verbatim>\<open>communicate\<close> takes its argument (a
  string or a list of strings), the shell flag and the file system the child sees, and
  either raises, leaving the text that \<^verbatim>\<open>traceback.format_exc()\<close> gives, or
  exits with a return code, its standard output and its standard error. The pipes are
  not opened in text mode, so the two outputs are bytes.

  Four more things belong to the interpreter and the system and not to the module.
  \<open>stdout_write\<close> is \<^verbatim>\<open>print\<close> as \<^verbatim>\<open>execute_command\<close> calls it: the
  exception it raises for a text (one the console cannot encode, say), or none.
  \<open>format_exc_concat\<close> is the text that \<^verbatim>\<open>traceback.format_exc()\<close> gives for the
  \<^verbatim>\<open>TypeError\<close> of \<^verbatim>\<open>'\n' + stdout\<close> (line 100) and of
  \<^verbatim>\<open>'\n' + stderr\<close> (line 102). \<open>decode\<close> is the decoding that a file opened
  in mode \<^verbatim>\<open>'r'\<close> applies to its bytes, failing on bytes that are no text.
  \<open>shutil_copy2\<close> is \<^verbatim>\<open>shutil.copy2\<close>: it raises (the destination's directory
  is missing, the destination is the source itself, ...) or returns, and leaves a file
  system either way.
\<close>

type_synonym template = "string \<times> string"

definition fmt :: "template \<Rightarrow> string \<Rightarrow> string" where
  "fmt t a = fst t @ a @ snd t"

datatype popen_args = ArgString string | ArgList "string list"

datatype proc_result = Exited int bytes bytes | Raised string

type_synonym path = string

type_synonym filesystem = "path \<rightharpoonup> bytes"

record env =
  norm_path :: "path \<Rightarrow> path"
  format_error :: "string \<Rightarrow> string"
  crit_error_unknown_system :: template
  crit_error_bad_command :: template
  crit_error_no_makelog :: template
  crit_error_no_file :: template
  crit_error_extension :: template
  extensions :: "string \<rightharpoonup> string"
  default_executables :: "string \<rightharpoonup> (string \<rightharpoonup> string)"
  default_options :: "string \<rightharpoonup> (string \<rightharpoonup> string)"
  settings :: "string \<rightharpoonup> string"
  subprocess_Popen :: "popen_args \<Rightarrow> bool \<Rightarrow> filesystem \<Rightarrow> proc_result \<times> filesystem"
  stdout_write :: "string \<Rightarrow> error option"
  format_exc_concat :: "nat \<Rightarrow> string"
  decode :: "bytes \<Rightarrow> string option"
  shutil_copy2 :: "path \<Rightarrow> path \<Rightarrow> filesystem \<Rightarrow> (error + unit) \<times> filesystem"

subsection \<open>The world a directive acts on\<close>

text \<open>
  \<open>makelog_started\<close> is the module-level flag \<^verbatim>\<open>metadata.makelog_started\<close>;
  \<open>console\<close> collects what \<^verbatim>\<open>print\<close> writes, one entry per call;
  \<open>spawned\<close> records every call of the process primitive with its arguments.
\<close>

record world =
  files :: filesystem
  makelog_started :: bool
  console :: "string list"
  spawned :: "(popen_args \<times> bool) list"

definition isfile :: "world \<Rightarrow> path \<Rightarrow> bool" where
  "isfile w p = (files w p \<noteq> None)"

definition append_file :: "path \<Rightarrow> string \<Rightarrow> world \<Rightarrow> world" where
  "append_file p s w =
     w\<lparr>files := (files w)(p \<mapsto> (case files w p of None \<Rightarrow> [] | Some c \<Rightarrow> c) @ s)\<rparr>"

definition write_file :: "path \<Rightarrow> string \<Rightarrow> world \<Rightarrow> world" where
  "write_file p s w = w\<lparr>files := (files w)(p \<mapsto> s)\<rparr>"

text \<open>
  A file opened in mode \<^verbatim>\<open>'r'\<close> is read as text: the bytes are decoded and the
  line ends \<^verbatim>\<open>\r\n\<close> and \<^verbatim>\<open>\r\<close> become \<^verbatim>\<open>\n\<close>. \<open>read_text\<close> is
  \<^verbatim>\<open>open(p, 'r').read()\<close>, and \<open>None\<close> when it raises: there is no such file, or
  its bytes do not decode.
\<close>

fun universal_newlines :: "string \<Rightarrow> string" where
  "universal_newlines [] = []"
| "universal_newlines [c] = [if c = CHR 0x0D then CHR 0x0A else c]"
| "universal_newlines (c # c' # cs) =
     (if c = CHR 0x0D
      then (if c' = CHR 0x0A then CHR 0x0A # universal_newlines cs
            else CHR 0x0A # universal_newlines (c' # cs))
      else c # universal_newlines (c' # cs))"

definition read_text :: "env \<Rightarrow> world \<Rightarrow> path \<Rightarrow> string option" where
  "read_text e w p =
     (case files w p of
        None \<Rightarrow> None
      | Some raw \<Rightarrow> map_option universal_newlines (decode e raw))"

definition remove :: "path \<Rightarrow> world \<Rightarrow> error + world" where
  "remove p w =
     (case files w p of
        None \<Rightarrow> Inl (IOError p)
      | Some c \<Rightarrow> Inr (w\<lparr>files := (files w)(p := None)\<rparr>))"

subsection \<open>Strings: \<^verbatim>\<open>str.split()\<close> and \<^verbatim>\<open>' '.join\<close>\<close>

text \<open>
  \<^verbatim>\<open>isspace\<close> holds for the white space of Python's text strings among the code
  points below 256. \<^verbatim>\<open>command.split()\<close> cuts at every run of white space and
  yields no empty token.
\<close>

definition isspace :: "char \<Rightarrow> bool" where
  "isspace c = (c \<in> set [CHR 0x09, CHR 0x0A, CHR 0x0B, CHR 0x0C, CHR 0x0D,
                          CHR 0x1C, CHR 0x1D, CHR 0x1E, CHR 0x1F, CHR 0x20,
                          CHR 0x85, CHR 0xA0])"

fun split_from :: "string \<Rightarrow> string \<Rightarrow> string list" where
  "split_from cur [] = (if cur = [] then [] else [cur])"
| "split_from cur (c # cs) =
     (if isspace c then (if cur = [] then split_from [] cs else cur # split_from [] cs)
      else split_from (cur @ [c]) cs)"

definition split :: "string \<Rightarrow> string list" where
  "split s = split_from [] s"

fun join :: "string \<Rightarrow> string list \<Rightarrow> string" where
  "join sep [] = []"
| "join sep [x] = x"
| "join sep (x # y # ys) = x @ sep @ join sep (y # ys)"

subsection \<open>Directive\<close>

text \<open>
  \<open>output'\<close> is the attribute \<^verbatim>\<open>self.output\<close>: it does not exist before
  \<^verbatim>\<open>execute_command\<close> has run (\<open>None\<close>), and reading it then raises
  \<^verbatim>\<open>AttributeError\<close>.
\<close>

record directive =
  makelog :: path
  osname :: string
  shell :: bool
  log :: path
  output' :: "string option"

definition check_os :: "env \<Rightarrow> 'a directive_scheme \<Rightarrow> error + unit" where
  "check_os e d =
     (if osname d \<noteq> ''posix'' \<and> osname d \<noteq> ''nt''
      then Inl (CritError (fmt (crit_error_unknown_system e) (osname d)))
      else Inr ())"

definition get_paths :: "env \<Rightarrow> 'a directive_scheme \<Rightarrow> 'a directive_scheme" where
  "get_paths e d =
     d\<lparr>makelog := norm_path e (makelog d),
       log := (if log d \<noteq> [] then norm_path e (log d) else log d)\<rparr>"

text \<open>
  The keyword arguments of \<^verbatim>\<open>Directive.__init__\<close>, which the subclasses pass on
  as \<^verbatim>\<open>**kwargs\<close>.
\<close>

record directive_kwargs =
  kw_makelog :: path
  kw_osname :: string
  kw_shell :: bool
  kw_log :: path

definition directive_init :: "env \<Rightarrow> 'a directive_kwargs_scheme \<Rightarrow> error + directive" where
  "directive_init e kw =
     (let d = \<lparr>makelog = kw_makelog kw, osname = kw_osname kw, shell = kw_shell kw,
                log = kw_log kw, output' = None\<rparr>
      in case check_os e d of
           Inl err \<Rightarrow> Inl err
         | Inr u \<Rightarrow> Inr (get_paths e d))"

definition banner :: "string \<Rightarrow> string" where
  "banner command = ''Executing: '' @ [CHR 0x22] @ command @ [CHR 0x22]"

definition own_line :: "string \<Rightarrow> string" where
  "own_line s = (if s = [] then [] else CHR 0x0A # s)"

definition bad_command_error :: "env \<Rightarrow> string list \<Rightarrow> string \<Rightarrow> string" where
  "bad_command_error e tokens tb =
     format_error e (fmt (crit_error_bad_command e) (join '' '' tokens) @ [CHR 0x0A] @ tb)"

text \<open>
  \<^verbatim>\<open>execute_command\<close>. Lines 90 and 91 stand before the \<^verbatim>\<open>try\<close>: what
  \<^verbatim>\<open>print\<close> raises leaves the method, with \<^verbatim>\<open>self.output\<close> already set.
  Everything else is inside the \<^verbatim>\<open>try\<close>, and the bare \<^verbatim>\<open>except\<close> catches what
  it raises (\<open>caught\<close>). That is what the process primitive raises, and also the
  \<^verbatim>\<open>TypeError\<close> of lines 100 and 102: \<^verbatim>\<open>self.output\<close> is a \<^verbatim>\<open>str\<close> and the
  outputs of the child are bytes, so the first of the two that is not empty cannot be
  added to it.
\<close>

definition execute_command ::
  "env \<Rightarrow> 'a directive_scheme \<Rightarrow> world \<Rightarrow> string
     \<Rightarrow> (error + int \<times> string) \<times> 'a directive_scheme \<times> world" where
  "execute_command e d w command =
     (let d0 = d\<lparr>output' := Some (banner command)\<rparr>
      in case stdout_write e (banner command) of
           Some exn \<Rightarrow> (Inl exn, d0, w)
         | None \<Rightarrow>
             (let w1 = w\<lparr>console := console w @ [banner command]\<rparr>;
                  tokens = split command;
                  r = subprocess_Popen e (ArgList tokens) (shell d) (files w1);
                  w2 = w1\<lparr>files := snd r,
                          spawned := spawned w1 @ [(ArgList tokens, shell d)]\<rparr>;
                  caught = (\<lambda>tb.
                    (Inr (1, bad_command_error e tokens tb),
                     d0\<lparr>output' :=
                          Some (banner command @ [CHR 0x0A] @ bad_command_error e tokens tb)\<rparr>,
                     w2))
              in case fst r of
                   Raised tb \<Rightarrow> caught tb
                 | Exited rc out err \<Rightarrow>
                     (if out \<noteq> [] then caught (format_exc_concat e 100)
                      else if err \<noteq> [] then caught (format_exc_concat e 102)
                      else (Inr (rc, err), d0, w2))))"

definition write_log ::
  "env \<Rightarrow> 'a directive_scheme \<Rightarrow> world \<Rightarrow> (error + unit) \<times> world" where
  "write_log e d w =
     (case (if makelog d \<noteq> [] then
              (if \<not> (makelog_started w \<and> isfile w (makelog d))
               then (Inl (CritError (fmt (crit_error_no_makelog e) (makelog d))), w)
               else case output' d of
                      None \<Rightarrow> (Inl (AttributeError ''output''), w)
                    | Some out \<Rightarrow> (Inr (), append_file (makelog d) out w))
            else (Inr (), w)) of
        (Inl err, w1) \<Rightarrow> (Inl err, w1)
      | (Inr u, w1) \<Rightarrow>
          (if log d \<noteq> [] then
             (case output' d of
                None \<Rightarrow> (Inl (AttributeError ''output''), write_file (log d) [] w1)
              | Some out \<Rightarrow> (Inr (), write_file (log d) out w1))
           else (Inr (), w1)))"

subsection \<open>Paths: \<^verbatim>\<open>os.path\<close> on a POSIX system\<close>

text \<open>
  \<^verbatim>\<open>rfind\<close> is \<^verbatim>\<open>str.rfind\<close> for one character: the last index where it
  stands, or -1. \<^verbatim>\<open>dirname\<close>, \<^verbatim>\<open>basename\<close> and \<^verbatim>\<open>splitext\<close> follow
  \<^verbatim>\<open>posixpath\<close>: the extension starts at the last dot of the last component,
  unless only dots stand before it.
\<close>

definition rfind :: "char \<Rightarrow> string \<Rightarrow> int" where
  "rfind c p =
     (if c \<in> set p
      then int (length p) - 1 - int (length (takeWhile (\<lambda>x. x \<noteq> c) (rev p)))
      else - 1)"

definition basename :: "path \<Rightarrow> string" where
  "basename p = drop (nat (rfind (CHR ''/'') p + 1)) p"

definition dirname :: "path \<Rightarrow> path" where
  "dirname p =
     (let head = take (nat (rfind (CHR ''/'') p + 1)) p
      in if head \<noteq> [] \<and> head \<noteq> replicate (length head) (CHR ''/'')
         then rev (dropWhile (\<lambda>c. c = CHR ''/'') (rev head))
         else head)"

definition splitext :: "path \<Rightarrow> path \<times> string" where
  "splitext p =
     (let sepIndex = rfind (CHR ''/'') p;
          dotIndex = rfind (CHR ''.'') p
      in if dotIndex > sepIndex \<and>
            list_ex (\<lambda>c. c \<noteq> CHR ''.'')
              (take (nat (dotIndex - (sepIndex + 1))) (drop (nat (sepIndex + 1)) p))
         then (take (nat dotIndex) p, drop (nat dotIndex) p)
         else (p, []))"

subsection \<open>ProgramDirective\<close>

definition lookup :: "(string \<rightharpoonup> 'v) \<Rightarrow> string \<Rightarrow> error + 'v" where
  "lookup m k = (case m k of None \<Rightarrow> Inl (KeyError k) | Some v \<Rightarrow> Inr v)"

text \<open>
  The attributes \<open>program_dir\<close>, \<open>program_base\<close>, \<open>program_name\<close> and
  \<open>program_ext\<close> are created by \<^verbatim>\<open>parse_program\<close>; the record holds the empty
  string in them until then.
\<close>

record program_directive = directive +
  application :: string
  program :: string
  executable :: string
  option :: string
  args :: string
  program_dir :: string
  program_base :: string
  program_name :: string
  program_ext :: string

definition parse_program ::
  "env \<Rightarrow> 'a program_directive_scheme \<Rightarrow> 'a program_directive_scheme" where
  "parse_program e d =
     (let p = norm_path e (program d);
          base = basename p
      in d\<lparr>program := p,
           program_dir := dirname p,
           program_base := base,
           program_name := fst (splitext base),
           program_ext := snd (splitext base)\<rparr>)"

definition check_program ::
  "env \<Rightarrow> world \<Rightarrow> 'a program_directive_scheme \<Rightarrow> error + unit" where
  "check_program e w d =
     (if \<not> isfile w (program d)
      then Inl (CritError (fmt (crit_error_no_file e) (program d)))
      else case lookup (extensions e) (application d) of
             Inl err \<Rightarrow> Inl err
           | Inr x \<Rightarrow>
               (if program_ext d \<noteq> x
                then Inl (CritError (fmt (crit_error_extension e) (program d)))
                else Inr ()))"

definition get_executable ::
  "env \<Rightarrow> 'a program_directive_scheme \<Rightarrow> error + 'a program_directive_scheme" where
  "get_executable e d =
     (if executable d = [] then
        (case lookup (default_executables e) (osname d) of
           Inl err \<Rightarrow> Inl err
         | Inr t \<Rightarrow>
             (case lookup t (application d) of
                Inl err \<Rightarrow> Inl err
              | Inr x \<Rightarrow> Inr (d\<lparr>executable := x\<rparr>)))
      else Inr d)"

definition get_option ::
  "env \<Rightarrow> 'a program_directive_scheme \<Rightarrow> error + 'a program_directive_scheme" where
  "get_option e d =
     (if option d = [] then
        (case lookup (default_options e) (osname d) of
           Inl err \<Rightarrow> Inl err
         | Inr t \<Rightarrow>
             (case lookup t (application d) of
                Inl err \<Rightarrow> Inl err
              | Inr x \<Rightarrow> Inr (d\<lparr>option := x\<rparr>)))
      else Inr d)"

definition with_program ::
  "directive \<Rightarrow> string \<Rightarrow> path \<Rightarrow> string \<Rightarrow> string \<Rightarrow> string \<Rightarrow> program_directive" where
  "with_program b app prog exe opt ar =
     \<lparr>makelog = makelog b, osname = osname b, shell = shell b, log = log b,
      output' = output' b,
      application = app, program = prog, executable = exe, option = opt, args = ar,
      program_dir = [], program_base = [], program_name = [], program_ext = []\<rparr>"

definition program_directive_init ::
  "env \<Rightarrow> world \<Rightarrow> string \<Rightarrow> path \<Rightarrow> string \<Rightarrow> string \<Rightarrow> string
     \<Rightarrow> 'a directive_kwargs_scheme \<Rightarrow> error + program_directive" where
  "program_directive_init e w app prog exe opt ar kw =
     (case directive_init e kw of
        Inl err \<Rightarrow> Inl err
      | Inr b \<Rightarrow>
          (let d = parse_program e (with_program b app prog exe opt ar)
           in case check_program e w d of
                Inl err \<Rightarrow> Inl err
              | Inr u \<Rightarrow>
                  (case get_executable e d of
                     Inl err \<Rightarrow> Inl err
                   | Inr d1 \<Rightarrow> get_option e d1)))"

definition move_program_output ::
  "env \<Rightarrow> 'a program_directive_scheme \<Rightarrow> world \<Rightarrow> path \<Rightarrow> path
     \<Rightarrow> (error + unit) \<times> world" where
  "move_program_output e d w program_output log_file =
     (let p = norm_path e program_output
      in case read_text e w p of
           None \<Rightarrow> (Inl (CritError (fmt (crit_error_no_file e) p)), w)
         | Some out \<Rightarrow>
             (case (if makelog d \<noteq> [] then
                      (if \<not> (makelog_started w \<and> isfile w (makelog d))
                       then (Inl (CritError (fmt (crit_error_no_makelog e) (makelog d))), w)
                       else (Inr (), append_file (makelog d) out w))
                    else (Inr (), w)) of
                (Inl err, w1) \<Rightarrow> (Inl err, w1)
              | (Inr u, w1) \<Rightarrow>
                  (if log_file \<noteq> [] then
                     (if p \<noteq> log_file then
                        (case shutil_copy2 e p log_file (files w1) of
                           (Inl err, fs2) \<Rightarrow> (Inl err, w1\<lparr>files := fs2\<rparr>)
                         | (Inr u, fs2) \<Rightarrow>
                             (case remove p (w1\<lparr>files := fs2\<rparr>) of
                                Inl err \<Rightarrow> (Inl err, w1\<lparr>files := fs2\<rparr>)
                              | Inr w3 \<Rightarrow> (Inr (), w3)))
                      else (Inr (), w1))
                   else
                     (case remove p w1 of
                        Inl err \<Rightarrow> (Inl err, w1)
                      | Inr w3 \<Rightarrow> (Inr (), w3)))))"

subsection \<open>SASDirective\<close>

text \<open>
  The keyword arguments of \<^verbatim>\<open>ProgramDirective.__init__\<close>, which
  \<^verbatim>\<open>SASDirective\<close> and \<^verbatim>\<open>LyxDirective\<close> pass on as \<^verbatim>\<open>**kwargs\<close>.
\<close>

record program_kwargs = directive_kwargs +
  kw_application :: string
  kw_program :: path
  kw_executable :: string
  kw_option :: string
  kw_args :: string

definition program_directive_init_kw ::
  "env \<Rightarrow> world \<Rightarrow> 'a program_kwargs_scheme \<Rightarrow> error + program_directive" where
  "program_directive_init_kw e w kw =
     program_directive_init e w (kw_application kw) (kw_program kw) (kw_executable kw)
       (kw_option kw) (kw_args kw) kw"

record sas_directive = program_directive +
  lst :: path

definition sas_directive_init ::
  "env \<Rightarrow> world \<Rightarrow> path \<Rightarrow> 'a program_kwargs_scheme \<Rightarrow> error + sas_directive" where
  "sas_directive_init e w l kw =
     (case program_directive_init_kw e w kw of
        Inl err \<Rightarrow> Inl err
      | Inr d \<Rightarrow> Inr (program_directive.extend d (sas_directive.fields l)))"

subsection \<open>LyxDirective\<close>

text \<open>
  The default of the parameter \<^verbatim>\<open>pdfout\<close> is \<^verbatim>\<open>metadata.settings['output_dir']\<close>,
  looked up once when the class is defined; a caller that gives no \<^verbatim>\<open>pdfout\<close>
  passes \<open>default_pdfout\<close>.
\<close>

record lyx_directive = program_directive +
  doctype :: string
  pdfout :: path

definition default_pdfout :: "env \<Rightarrow> error + path" where
  "default_pdfout e = lookup (settings e) ''output_dir''"

definition doctype_warning :: "string \<Rightarrow> string" where
  "doctype_warning dt =
     ''Document type '' @ [CHR 0x22] @ dt @ [CHR 0x22] @ '' unrecognized. Reverting to default''"

definition check_doctype ::
  "'a lyx_directive_scheme \<Rightarrow> world \<Rightarrow> 'a lyx_directive_scheme \<times> world" where
  "check_doctype d w =
     (if doctype d \<notin> set [''handout'', ''comments'', []]
      then (d\<lparr>doctype := []\<rparr>, w\<lparr>console := console w @ [doctype_warning (doctype d)]\<rparr>)
      else (d, w))"

definition get_pdfout ::
  "env \<Rightarrow> 'a lyx_directive_scheme \<Rightarrow> error + 'a lyx_directive_scheme" where
  "get_pdfout e d =
     (if doctype d \<noteq> [] then
        (case lookup (settings e) ''temp_dir'' of
           Inl err \<Rightarrow> Inl err
         | Inr t \<Rightarrow> Inr (d\<lparr>pdfout := norm_path e t\<rparr>))
      else Inr (d\<lparr>pdfout := norm_path e (pdfout d)\<rparr>))"

definition lyx_directive_init ::
  "env \<Rightarrow> world \<Rightarrow> string \<Rightarrow> path \<Rightarrow> 'a program_kwargs_scheme
     \<Rightarrow> (error + lyx_directive) \<times> world" where
  "lyx_directive_init e w dt po kw =
     (case program_directive_init_kw e w kw of
        Inl err \<Rightarrow> (Inl err, w)
      | Inr d \<Rightarrow>
          (let r = check_doctype
                     (program_directive.extend d (lyx_directive.fields dt po)) w
           in (get_pdfout e (fst r), snd r)))"

subsection \<open>Formatting of the diagnostic\<close>

text \<open>
  Modelled from the spec: \<^verbatim>\<open>utility.format_error\<close> is imported by the module and is
  not part of the sources. The spec says of the diagnostic that it is a message
  "embedding the full command and the underlying failure's textual trace", so the
  formatting is taken to keep the text it is given: \<open>embeds_message f\<close> says that every
  message stands, unbroken, inside its formatted form.
\<close>

definition embeds_message :: "(string \<Rightarrow> string) \<Rightarrow> bool" where
  "embeds_message f = (\<forall>s. sublist s (f s))"

subsection \<open>A concrete environment\<close>

text \<open>
  The theorems below hold for every environment. To run the model on inputs, here is
  one: paths are normalised by turning backslashes into slashes, the process primitive
  knows the command \<^verbatim>\<open>echo\<close> and raises on any other, and the tables hold two
  applications. The console and the files are ASCII. The directories are the current
  one, \<^verbatim>\<open>code\<close> and \<^verbatim>\<open>doc\<close>; a copy into another directory raises.
\<close>

definition ascii :: "string \<Rightarrow> bool" where
  "ascii s = list_all (\<lambda>c. \<not> digit7 c) s"

definition demo_print :: "string \<Rightarrow> error option" where
  "demo_print s = (if ascii s then None else Some (UnicodeEncodeError s))"

definition demo_copy2 :: "path \<Rightarrow> path \<Rightarrow> filesystem \<Rightarrow> (error + unit) \<times> filesystem" where
  "demo_copy2 src dst fs =
     (case fs src of
        None \<Rightarrow> (Inl (IOError src), fs)
      | Some c \<Rightarrow>
          (if dirname dst \<in> set [[], ''code'', ''doc'']
           then (Inr (), fs(dst \<mapsto> c))
           else (Inl (IOError dst), fs)))"

definition demo_popen ::
  "popen_args \<Rightarrow> bool \<Rightarrow> filesystem \<Rightarrow> proc_result \<times> filesystem" where
  "demo_popen a sh fs =
     (case a of
        ArgString s \<Rightarrow> (Raised ''TypeError'', fs)
      | ArgList ws \<Rightarrow>
          (if ws \<noteq> [] \<and> hd ws = ''echo''
           then (Exited 0 (join '' '' (tl ws)) [], fs)
           else (Raised ''OSError: [Errno 2] No such file or directory'', fs)))"

definition demo_env :: env where
  "demo_env =
     \<lparr>norm_path = map (\<lambda>c. if c = CHR 0x5C then CHR ''/'' else c),
      format_error = (\<lambda>s. ''*** '' @ s @ '' ***''),
      crit_error_unknown_system = (''Unknown system: '', []),
      crit_error_bad_command = (''Command failed: '', []),
      crit_error_no_makelog = (''Makelog not started: '', []),
      crit_error_no_file = (''File not found: '', []),
      crit_error_extension = (''Wrong extension: '', []),
      extensions = [''stata'' \<mapsto> ''.do'', ''lyx'' \<mapsto> ''.lyx''],
      default_executables =
        [''posix'' \<mapsto> [''stata'' \<mapsto> ''stata-mp'', ''lyx'' \<mapsto> ''lyx'']],
      default_options =
        [''posix'' \<mapsto> [''stata'' \<mapsto> ''-e'', ''lyx'' \<mapsto> ''-e pdf2'']],
      settings = [''output_dir'' \<mapsto> ''../output'', ''temp_dir'' \<mapsto> ''../temp''],
      subprocess_Popen = demo_popen,
      stdout_write = demo_print,
      format_exc_concat = (\<lambda>n. ''TypeError: can only concatenate str (not bytes) to str''),
      decode = (\<lambda>b. if ascii b then Some b else None),
      shutil_copy2 = demo_copy2\<rparr>"

definition demo_world :: world where
  "demo_world =
     \<lparr>files = [''make.log'' \<mapsto> ''started'', ''code/run.do'' \<mapsto> ''display 1'',
               ''doc/paper.lyx'' \<mapsto> ''text'', ''run.log'' \<mapsto> ''one''],
      makelog_started = True, console = [], spawned = []\<rparr>"

definition demo_directive :: "bool \<Rightarrow> path \<Rightarrow> string option \<Rightarrow> directive" where
  "demo_directive sh lg out =
     \<lparr>makelog = ''make.log'', osname = ''posix'', shell = sh, log = lg, output' = out\<rparr>"

definition demo_kwargs :: "string \<Rightarrow> directive_kwargs" where
  "demo_kwargs os = \<lparr>kw_makelog = ''make.log'', kw_osname = os, kw_shell = False, kw_log = []\<rparr>"

definition demo_lyx_kwargs :: program_kwargs where
  "demo_lyx_kwargs =
     \<lparr>kw_makelog = ''make.log'', kw_osname = ''posix'', kw_shell = False, kw_log = [],
      kw_application = ''lyx'', kw_program = ''doc/paper.lyx'', kw_executable = [],
      kw_option = [], kw_args = []\<rparr>"

definition demo_stata :: program_directive where
  "demo_stata =
     with_program (demo_directive False [] None) ''stata'' ''code/run.do'' ''stata-mp'' ''-e'' []"

section \<open>Properties\<close>

subsection \<open>Tokens of a command\<close>

lemma split_from_clean:
  "list_all (\<lambda>c. \<not> isspace c) cur \<Longrightarrow>
   list_all (\<lambda>t. t \<noteq> [] \<and> list_all (\<lambda>c. \<not> isspace c) t) (split_from cur s)"
  by (induction s arbitrary: cur) auto

lemma concat_split_from:
  "concat (split_from cur s) = cur @ filter (\<lambda>c. \<not> isspace c) s"
  by (induction s arbitrary: cur) auto

lemma split_clean:
  "list_all (\<lambda>t. t \<noteq> [] \<and> list_all (\<lambda>c. \<not> isspace c) t) (split s)"
  unfolding split_def by (rule split_from_clean) simp

lemma concat_split: "concat (split s) = filter (\<lambda>c. \<not> isspace c) s"
  unfolding split_def by (simp add: concat_split_from)

lemma split_from_token:
  "list_all (\<lambda>c. \<not> isspace c) t \<Longrightarrow>
   split_from cur (t @ s) = split_from (cur @ t) s"
  by (induction t arbitrary: cur) auto

lemma split_from_join:
  "list_all (\<lambda>t. t \<noteq> [] \<and> list_all (\<lambda>c. \<not> isspace c) t) ts \<Longrightarrow>
   split_from [] (join '' '' ts) = ts"
proof (induction ts)
  case Nil
  then show ?case by simp
next
  case (Cons x xs)
  show ?case
  proof (cases xs)
    case Nil
    with Cons.prems show ?thesis
      using split_from_token[of x "[]" "[]"] by simp
  next
    case (Cons y ys)
    with Cons.prems Cons.IH show ?thesis
      using split_from_token[of x "[]" "'' '' @ join '' '' (y # ys)"]
      by (simp add: isspace_def)
  qed
qed

lemma split_join_split: "split (join '' '' (split s)) = split s"
  unfolding split_def using split_from_join[OF split_clean[unfolded split_def]] .

lemma demo_split_echo: "split ''echo hi'' = [''echo'', ''hi'']"
  by (simp add: split_def isspace_def)

lemma demo_split_nosuch: "split ''nosuch  prog'' = [''nosuch'', ''prog'']"
  by (simp add: split_def isspace_def)

lemma demo_banner_ascii:
  "stdout_write demo_env (banner ''echo hi'') = None"
  "stdout_write demo_env (banner ''nosuch  prog'') = None"
  by (simp_all add: demo_env_def demo_print_def ascii_def banner_def)

subsection \<open>How a command reaches the process primitive\<close>

text \<open>
  Once the banner is printed, \<^verbatim>\<open>execute_command\<close> calls the process primitive
  once, and what it hands over is the list of the command's tokens together with the
  shell flag, whatever the flag is: \<^verbatim>\<open>command.split()\<close> at line 94 is not guarded
  by the flag, and line 95 passes \<^verbatim>\<open>shell = self.shell\<close> on.
\<close>

lemma spawned_execute_command:
  assumes "stdout_write e (banner command) = None"
  shows "spawned (snd (snd (execute_command e d w command))) =
           spawned w @ [(ArgList (split command), shell d)]"
  using assms
  by (simp add: execute_command_def Let_def split: proc_result.split)

text \<open>
  C1 fails on the code. With the shell flag set, the command \<^verbatim>\<open>echo hi\<close> reaches
  the primitive as the list of its two tokens, together with \<^verbatim>\<open>shell = True\<close>, and
  not as the string.
\<close>

theorem execute_command_shell_dispatch:
  "shell (demo_directive True [] None)
   \<and> spawned (snd (snd (execute_command demo_env (demo_directive True [] None)
                           demo_world ''echo hi''))) =
       [(ArgList [''echo'', ''hi''], True)]
   \<and> spawned (snd (snd (execute_command demo_env (demo_directive True [] None)
                           demo_world ''echo hi''))) \<noteq>
       [(ArgString ''echo hi'', True)]"
  by (simp add: spawned_execute_command[OF demo_banner_ascii(1)] demo_split_echo)
     (simp add: demo_world_def demo_directive_def)

subsection \<open>What \<^verbatim>\<open>execute_command\<close> leaves in \<^verbatim>\<open>self.output\<close>\<close>

lemma execute_command_print_raises:
  assumes "stdout_write e (banner command) = Some exn"
  shows "execute_command e d w command = (Inl exn, d\<lparr>output' := Some (banner command)\<rparr>, w)"
  using assms by (simp add: execute_command_def Let_def)

lemma execute_command_raised:
  assumes "stdout_write e (banner command) = None"
    and "fst (subprocess_Popen e (ArgList (split command)) (shell d) (files w)) = Raised tb"
  shows "fst (execute_command e d w command) =
           Inr (1, bad_command_error e (split command) tb)"
    and "output' (fst (snd (execute_command e d w command))) =
           Some (banner command @ [CHR 0x0A] @ bad_command_error e (split command) tb)"
  using assms by (simp_all add: execute_command_def Let_def)

lemma execute_command_exited:
  assumes "stdout_write e (banner command) = None"
    and "fst (subprocess_Popen e (ArgList (split command)) (shell d) (files w)) =
           Exited rc out err"
  shows "out = [] \<and> err = [] \<Longrightarrow>
           fst (execute_command e d w command) = Inr (rc, [])
           \<and> output' (fst (snd (execute_command e d w command))) = Some (banner command)"
    and "out \<noteq> [] \<Longrightarrow>
           fst (execute_command e d w command) =
             Inr (1, bad_command_error e (split command) (format_exc_concat e 100))
           \<and> output' (fst (snd (execute_command e d w command))) =
               Some (banner command @ [CHR 0x0A]
                     @ bad_command_error e (split command) (format_exc_concat e 100))"
    and "out = [] \<and> err \<noteq> [] \<Longrightarrow>
           fst (execute_command e d w command) =
             Inr (1, bad_command_error e (split command) (format_exc_concat e 102))
           \<and> output' (fst (snd (execute_command e d w command))) =
               Some (banner command @ [CHR 0x0A]
                     @ bad_command_error e (split command) (format_exc_concat e 102))"
  using assms by (simp_all add: execute_command_def Let_def)

lemma execute_command_returns:
  assumes "stdout_write e (banner command) = None"
  shows "\<exists>r. fst (execute_command e d w command) = Inr r"
  using assms
  by (simp add: execute_command_def Let_def split: proc_result.split)

text \<open>
  C7 fails on the code. The child of \<^verbatim>\<open>echo hi\<close> exits with the code 0 and has
  written \<^verbatim>\<open>hi\<close> to its standard output. These are bytes, line 100 raises, and the
  \<^verbatim>\<open>except\<close> branch runs: the method returns the code 1 with the diagnostic, and
  \<^verbatim>\<open>self.output\<close> is the banner followed by the diagnostic, not by \<^verbatim>\<open>hi\<close>.
\<close>

theorem execute_command_output_bytes:
  "fst (subprocess_Popen demo_env (ArgList (split ''echo hi'')) False (files demo_world)) =
     Exited 0 ''hi'' []
   \<and> fst (execute_command demo_env (demo_directive False [] None) demo_world ''echo hi'') =
       Inr (1, ''*** Command failed: echo hi'' @ [CHR 0x0A]
               @ ''TypeError: can only concatenate str (not bytes) to str ***'')
   \<and> output' (fst (snd (execute_command demo_env (demo_directive False [] None)
                          demo_world ''echo hi''))) =
       Some (''Executing: '' @ [CHR 0x22] @ ''echo hi'' @ [CHR 0x22] @ [CHR 0x0A]
             @ ''*** Command failed: echo hi'' @ [CHR 0x0A]
             @ ''TypeError: can only concatenate str (not bytes) to str ***'')
   \<and> output' (fst (snd (execute_command demo_env (demo_directive False [] None)
                          demo_world ''echo hi''))) \<noteq>
       Some (''Executing: '' @ [CHR 0x22] @ ''echo hi'' @ [CHR 0x22] @ [CHR 0x0A] @ ''hi'')"
proof -
  have exited: "fst (subprocess_Popen demo_env (ArgList (split ''echo hi''))
               (shell (demo_directive False [] None)) (files demo_world)) =
          Exited 0 ''hi'' []"
    by (simp add: demo_split_echo demo_env_def demo_popen_def)
  have diag: "bad_command_error demo_env (split ''echo hi'') (format_exc_concat demo_env 100) =
        ''*** Command failed: echo hi'' @ [CHR 0x0A]
         @ ''TypeError: can only concatenate str (not bytes) to str ***''"
    by (simp add: demo_split_echo bad_command_error_def fmt_def demo_env_def)
  have sh: "shell (demo_directive False [] None) = False"
    by (simp add: demo_directive_def)
  from execute_command_exited(2)[OF demo_banner_ascii(1) exited] exited
  show ?thesis
    by (simp add: diag sh banner_def)
qed

subsection \<open>A process that cannot be run\<close>

lemma sublist_fmt: "sublist a (fmt t a)"
  unfolding fmt_def sublist_def by blast

lemma sublist_in_message:
  "sublist a (fmt t a @ [c] @ tb)" "sublist tb (fmt t a @ [c] @ tb)"
proof -
  have "fmt t a @ [c] @ tb = fst t @ a @ (snd t @ [c] @ tb)"
    by (simp add: fmt_def)
  then show "sublist a (fmt t a @ [c] @ tb)"
    unfolding sublist_def by blast
  have "fmt t a @ [c] @ tb = (fmt t a @ [c]) @ tb @ []"
    by simp
  then show "sublist tb (fmt t a @ [c] @ tb)"
    unfolding sublist_def by blast
qed

lemma bad_command_error_embeds:
  assumes "embeds_message (format_error e)"
  shows "sublist (join '' '' tokens) (bad_command_error e tokens tb)"
    and "sublist tb (bad_command_error e tokens tb)"
    and "bad_command_error e tokens tb \<noteq> []"
proof -
  let ?msg = "fmt (crit_error_bad_command e) (join '' '' tokens) @ [CHR 0x0A] @ tb"
  have inside: "sublist ?msg (bad_command_error e tokens tb)"
    using assms by (simp add: embeds_message_def bad_command_error_def)
  from sublist_in_message(1) inside
  show "sublist (join '' '' tokens) (bad_command_error e tokens tb)"
    by (rule sublist_order.order_trans)
  from sublist_in_message(2) inside
  show "sublist tb (bad_command_error e tokens tb)"
    by (rule sublist_order.order_trans)
  have "?msg \<noteq> []"
    by simp
  with inside show "bad_command_error e tokens tb \<noteq> []"
    by (cases "bad_command_error e tokens tb") simp_all
qed

lemma demo_diagnostic:
  "bad_command_error demo_env [''nosuch'', ''prog'']
     ''OSError: [Errno 2] No such file or directory'' =
   ''*** Command failed: nosuch prog'' @ [CHR 0x0A]
     @ ''OSError: [Errno 2] No such file or directory ***''"
  by (simp add: bad_command_error_def fmt_def demo_env_def)

lemma demo_raised:
  "fst (subprocess_Popen demo_env (ArgList (split ''nosuch  prog''))
          (shell (demo_directive False [] None)) (files demo_world)) =
     Raised ''OSError: [Errno 2] No such file or directory''"
  by (simp add: demo_split_nosuch demo_env_def demo_popen_def)

text \<open>
  C2, as the code has it. Let the banner be printed. Then \<^verbatim>\<open>execute_command\<close>
  returns, whatever the process primitive does: no exception leaves the \<^verbatim>\<open>try\<close>.
  When the primitive raises, leaving the trace \<open>tb\<close>, the result is the exit code 1
  with the diagnostic
  \<^verbatim>\<open>format_error(crit_error_bad_command % ' '.join(command) + '\n' + trace)\<close>,
  where \<^verbatim>\<open>command\<close> is by then the list of the tokens. With a \<^verbatim>\<open>format_error\<close>
  that keeps its message, the diagnostic is not empty and holds the trace and the
  tokens of the command joined by single spaces: a text with the same tokens as the
  command, and the command itself when the command is written that way.
\<close>

theorem execute_command_failure:
  assumes "stdout_write e (banner command) = None"
  shows "(\<exists>r. fst (execute_command e d w command) = Inr r)
    \<and> (fst (subprocess_Popen e (ArgList (split command)) (shell d) (files w)) = Raised tb \<longrightarrow>
         fst (execute_command e d w command) =
           Inr (1, format_error e (fmt (crit_error_bad_command e) (join '' '' (split command))
                                   @ [CHR 0x0A] @ tb))
         \<and> split (join '' '' (split command)) = split command
         \<and> (embeds_message (format_error e) \<longrightarrow>
              bad_command_error e (split command) tb \<noteq> []
              \<and> sublist tb (bad_command_error e (split command) tb)
              \<and> sublist (join '' '' (split command)) (bad_command_error e (split command) tb)
              \<and> (join '' '' (split command) = command \<longrightarrow>
                   sublist command (bad_command_error e (split command) tb))))"
proof (intro conjI impI)
  show "\<exists>r. fst (execute_command e d w command) = Inr r"
    by (rule execute_command_returns[OF assms])
next
  assume "fst (subprocess_Popen e (ArgList (split command)) (shell d) (files w)) = Raised tb"
  from execute_command_raised(1)[OF assms this]
  show "fst (execute_command e d w command) =
          Inr (1, format_error e (fmt (crit_error_bad_command e) (join '' '' (split command))
                                  @ [CHR 0x0A] @ tb))"
    by (simp add: bad_command_error_def)
next
  show "split (join '' '' (split command)) = split command"
    by (rule split_join_split)
next
  assume "embeds_message (format_error e)"
  then show "bad_command_error e (split command) tb \<noteq> []"
    by (rule bad_command_error_embeds(3))
next
  assume "embeds_message (format_error e)"
  then show "sublist tb (bad_command_error e (split command) tb)"
    by (rule bad_command_error_embeds(2))
next
  assume "embeds_message (format_error e)"
  then show "sublist (join '' '' (split command)) (bad_command_error e (split command) tb)"
    by (rule bad_command_error_embeds(1))
next
  assume "embeds_message (format_error e)" and same: "join '' '' (split command) = command"
  from bad_command_error_embeds(1)[OF this(1), of "split command" tb] same
  show "sublist command (bad_command_error e (split command) tb)"
    by simp
qed

theorem execute_command_failure_witness:
  "fst (execute_command demo_env (demo_directive False [] None) demo_world ''nosuch  prog'') =
     Inr (1, ''*** Command failed: nosuch prog'' @ [CHR 0x0A]
             @ ''OSError: [Errno 2] No such file or directory ***'')
   \<and> sublist ''nosuch prog''
       (bad_command_error demo_env [''nosuch'', ''prog'']
          ''OSError: [Errno 2] No such file or directory'')"
proof -
  have "sublist s (''*** '' @ s @ '' ***'')" for s :: string
    unfolding sublist_def by blast
  then have keeps: "embeds_message (format_error demo_env)"
    by (simp add: embeds_message_def demo_env_def)
  have joined: "join '' '' [''nosuch'', ''prog''] = ''nosuch prog''"
    by simp
  from execute_command_failure[OF demo_banner_ascii(2),
         of "demo_directive False [] None" demo_world
            "''OSError: [Errno 2] No such file or directory''"]
       demo_raised keeps
  show ?thesis
    by (simp only: demo_split_nosuch joined) (simp add: fmt_def demo_env_def)
qed

text \<open>
  C2, as the claim states it, fails twice. A command the console cannot print
  (\<^verbatim>\<open>echo\<close> and a word with the letter of code point 233) makes \<^verbatim>\<open>print\<close> raise at
  line 91, before the \<^verbatim>\<open>try\<close>, and the exception leaves the method. And the
  diagnostic for the command \<^verbatim>\<open>nosuch  prog\<close>, written with two spaces, holds
  \<^verbatim>\<open>nosuch prog\<close> with one space: the command itself does not stand in it.
\<close>

theorem execute_command_raises_counterexample:
  "fst (execute_command demo_env (demo_directive False [] None) demo_world
          (''echo caf'' @ [CHR 0xE9])) =
     Inl (UnicodeEncodeError (''Executing: '' @ [CHR 0x22] @ ''echo caf'' @ [CHR 0xE9, CHR 0x22]))
   \<and> fst (execute_command demo_env (demo_directive False [] None) demo_world
            ''nosuch  prog'') =
       Inr (1, ''*** Command failed: nosuch prog'' @ [CHR 0x0A]
               @ ''OSError: [Errno 2] No such file or directory ***'')
   \<and> \<not> sublist ''nosuch  prog''
         (''*** Command failed: nosuch prog'' @ [CHR 0x0A]
          @ ''OSError: [Errno 2] No such file or directory ***'')"
proof -
  have "stdout_write demo_env (banner (''echo caf'' @ [CHR 0xE9])) =
          Some (UnicodeEncodeError (banner (''echo caf'' @ [CHR 0xE9])))"
    by (simp add: demo_env_def demo_print_def ascii_def banner_def)
  from execute_command_print_raises[OF this, of "demo_directive False [] None" demo_world]
  have a: "fst (execute_command demo_env (demo_directive False [] None) demo_world
                  (''echo caf'' @ [CHR 0xE9])) =
           Inl (UnicodeEncodeError
                  (''Executing: '' @ [CHR 0x22] @ ''echo caf'' @ [CHR 0xE9, CHR 0x22]))"
    by (simp add: banner_def)
  from execute_command_raised(1)[OF demo_banner_ascii(2) demo_raised]
  have b: "fst (execute_command demo_env (demo_directive False [] None) demo_world
                  ''nosuch  prog'') =
           Inr (1, ''*** Command failed: nosuch prog'' @ [CHR 0x0A]
                   @ ''OSError: [Errno 2] No such file or directory ***'')"
    by (simp only: demo_split_nosuch demo_diagnostic)
  have c: "\<not> sublist ''nosuch  prog''
             (''*** Command failed: nosuch prog'' @ [CHR 0x0A]
              @ ''OSError: [Errno 2] No such file or directory ***'')"
    by (simp add: sublist_Cons_right)
  from a b c show ?thesis by simp
qed

subsection \<open>Writing the logs\<close>

text \<open>
  C3. With \<^verbatim>\<open>makelog\<close> set, \<^verbatim>\<open>write_log\<close> raises the configuration error
  \<^verbatim>\<open>CritError(crit_error_no_makelog % makelog)\<close> when the flag
  \<^verbatim>\<open>makelog_started\<close> is false or the makelog is not a file, and the world it
  leaves is the world it found: no file is created or changed, neither the makelog nor
  the directive's own log.
\<close>

theorem write_log_makelog_not_started:
  assumes "makelog d \<noteq> []"
    and "\<not> makelog_started w \<or> \<not> isfile w (makelog d)"
  shows "write_log e d w =
           (Inl (CritError (fmt (crit_error_no_makelog e) (makelog d))), w)"
  using assms by (auto simp add: write_log_def)

theorem write_log_makelog_not_started_witness:
  "write_log demo_env (demo_directive False ''run.log'' (Some ''text''))
     (demo_world\<lparr>makelog_started := False\<rparr>) =
   (Inl (CritError ''Makelog not started: make.log''), demo_world\<lparr>makelog_started := False\<rparr>)"
proof -
  have set: "makelog (demo_directive False ''run.log'' (Some ''text'')) \<noteq> []"
    by (simp add: demo_directive_def)
  have off: "\<not> makelog_started (demo_world\<lparr>makelog_started := False\<rparr>)
             \<or> \<not> isfile (demo_world\<lparr>makelog_started := False\<rparr>)
                   (makelog (demo_directive False ''run.log'' (Some ''text'')))"
    by simp
  from write_log_makelog_not_started[OF set off, of demo_env] show ?thesis
    by (simp add: demo_directive_def demo_env_def fmt_def)
qed






subsection \<open>Moving the output of a program\<close>

lemma universal_newlines_example:
  "universal_newlines (''a'' @ [CHR 0x0D, CHR 0x0A] @ ''b'' @ [CHR 0x0D] @ ''c'' @ [CHR 0x0A]) =
     ''a'' @ [CHR 0x0A] @ ''b'' @ [CHR 0x0A] @ ''c'' @ [CHR 0x0A]"
  by simp

lemma universal_newlines_plain:
  "CHR 0x0D \<notin> set s \<Longrightarrow> universal_newlines s = s"
  by (induction s rule: universal_newlines.induct) auto

lemma read_text_file:
  "read_text e w p = Some out \<Longrightarrow> files w p \<noteq> None"
  by (simp add: read_text_def split: option.splits)

lemma demo_read_run_log:
  "read_text demo_env w (norm_path demo_env ''run.log'') =
     (case files w ''run.log'' of
        None \<Rightarrow> None
      | Some raw \<Rightarrow> if ascii raw then Some (universal_newlines raw) else None)"
  by (simp add: read_text_def demo_env_def split: option.split)

lemma demo_stata_makelog: "makelog demo_stata = ''make.log''"
  by (simp add: demo_stata_def with_program_def demo_directive_def)

text \<open>
  C10. When the output of the program can be read and \<^verbatim>\<open>makelog\<close> is set, but the
  flag \<^verbatim>\<open>makelog_started\<close> is false or the makelog is not a file,
  \<^verbatim>\<open>move_program_output\<close> raises \<^verbatim>\<open>CritError(crit_error_no_makelog % makelog)\<close>
  and the world is the one it found: the output of the program is still there with its
  contents, the file \<open>log_file\<close> is as it was (absent, if it was absent), and so is the
  makelog.
\<close>

theorem move_program_output_makelog_not_started:
  assumes "read_text e w (norm_path e program_output) = Some out"
    and "makelog d \<noteq> []"
    and "\<not> makelog_started w \<or> \<not> isfile w (makelog d)"
  shows "move_program_output e d w program_output log_file =
           (Inl (CritError (fmt (crit_error_no_makelog e) (makelog d))), w)
         \<and> files (snd (move_program_output e d w program_output log_file))
             (norm_path e program_output) = files w (norm_path e program_output)
         \<and> files w (norm_path e program_output) \<noteq> None
         \<and> files (snd (move_program_output e d w program_output log_file)) log_file =
             files w log_file
         \<and> files (snd (move_program_output e d w program_output log_file)) (makelog d) =
             files w (makelog d)"
proof -
  from assms have "move_program_output e d w program_output log_file =
      (Inl (CritError (fmt (crit_error_no_makelog e) (makelog d))), w)"
    by (auto simp add: move_program_output_def Let_def)
  with read_text_file[OF assms(1)] show ?thesis by simp
qed

theorem move_program_output_makelog_not_started_witness:
  "move_program_output demo_env demo_stata (demo_world\<lparr>makelog_started := False\<rparr>)
     ''run.log'' ''logs/stata.log'' =
   (Inl (CritError ''Makelog not started: make.log''), demo_world\<lparr>makelog_started := False\<rparr>)
   \<and> files (demo_world\<lparr>makelog_started := False\<rparr>) ''run.log'' = Some ''one''
   \<and> files (demo_world\<lparr>makelog_started := False\<rparr>) ''logs/stata.log'' = None"
proof -
  let ?w = "demo_world\<lparr>makelog_started := False\<rparr>"
  have h1: "read_text demo_env ?w (norm_path demo_env ''run.log'') = Some ''one''"
    by (simp add: demo_read_run_log) (simp add: demo_world_def ascii_def)
  have h2: "makelog demo_stata \<noteq> []"
    by (simp add: demo_stata_makelog)
  have h3: "\<not> makelog_started ?w \<or> \<not> isfile ?w (makelog demo_stata)"
    by simp
  from move_program_output_makelog_not_started[OF h1 h2 h3, of "''logs/stata.log''"]
  show ?thesis
    by (simp add: demo_stata_makelog demo_env_def fmt_def demo_world_def)
qed

text \<open>
  The run of \<^verbatim>\<open>move_program_output\<close> after the read and the check of the makelog,
  step by step. \<open>p\<close> is the path that \<^verbatim>\<open>norm_path\<close> gives for
  \<open>program_output\<close>: the method rebinds the name to it at once, so it is this path
  that is read, compared with \<open>log_file\<close> as it was given, copied and removed.
  \<open>w1\<close> is the world after the makelog has been appended to.
\<close>

lemma move_program_output_steps:
  assumes "read_text e w (norm_path e program_output) = Some out"
    and "makelog d = [] \<or> (makelog_started w \<and> isfile w (makelog d))"
  shows "move_program_output e d w program_output log_file =
     (let p = norm_path e program_output;
          w1 = (if makelog d \<noteq> [] then append_file (makelog d) out w else w)
      in if log_file \<noteq> [] then
           (if p \<noteq> log_file then
              (case shutil_copy2 e p log_file (files w1) of
                 (Inl err, fs2) \<Rightarrow> (Inl err, w1\<lparr>files := fs2\<rparr>)
               | (Inr u, fs2) \<Rightarrow>
                   (if fs2 p = None then (Inl (IOError p), w1\<lparr>files := fs2\<rparr>)
                    else (Inr (), w1\<lparr>files := fs2(p := None)\<rparr>)))
            else (Inr (), w1))
         else (Inr (), w1\<lparr>files := (files w1)(p := None)\<rparr>))"
proof -
  from read_text_file[OF assms(1)]
  have there: "files w (norm_path e program_output) \<noteq> None" .
  then have kept: "files (append_file (makelog d) out w) (norm_path e program_output) \<noteq> None"
    by (simp add: append_file_def)
  show ?thesis
  proof (cases "makelog d = []")
    case True
    with assms(1) there show ?thesis
      by (auto simp add: move_program_output_def Let_def remove_def
            split: prod.split sum.split option.split)
  next
    case False
    with assms(2) have ok: "makelog_started w" "isfile w (makelog d)"
      by simp_all
    from False ok assms(1) kept show ?thesis
      by (auto simp add: move_program_output_def Let_def remove_def
            split: prod.split sum.split option.split)
  qed
qed

lemma files_append_file:
  "files (append_file m s w) q =
     (if q = m then Some ((case files w m of None \<Rightarrow> [] | Some c \<Rightarrow> c) @ s) else files w q)"
  by (simp add: append_file_def)

text \<open>
  C4, as the code has it. Let the output of the program be read at \<open>p\<close>, the path that
  \<^verbatim>\<open>norm_path\<close> gives for \<open>program_output\<close>, as the text \<open>out\<close>, and let the
  makelog be unset, or started and a file. If the makelog is set, \<open>out\<close> is appended to
  it (\<open>w1\<close>) and nothing else changes. After that:

  \<^item> when \<open>log_file\<close> is given and is not \<open>p\<close>, \<^verbatim>\<open>shutil.copy2(p, log_file)\<close> is
    called; if it raises, the method raises the same, after the makelog has been
    written; if it returns, \<open>p\<close> is removed from the file system it leaves, and the
    method succeeds;
  \<^item> when \<open>log_file\<close> is \<open>p\<close>, the method succeeds and nothing more changes;
  \<^item> when \<open>log_file\<close> is empty, \<open>p\<close> is removed and the method succeeds.

  With three different paths and a copy that writes the bytes of \<open>p\<close> to \<open>log_file\<close>,
  the makelog holds its old contents followed by \<open>out\<close>, \<open>log_file\<close> holds the bytes
  of the output, and \<open>p\<close> is no file any more.
\<close>

theorem move_program_output_relocates:
  assumes "read_text e w (norm_path e program_output) = Some out"
    and "makelog d = [] \<or> (makelog_started w \<and> isfile w (makelog d))"
  shows
    "(let p = norm_path e program_output;
          w1 = (if makelog d \<noteq> [] then append_file (makelog d) out w else w);
          r = move_program_output e d w program_output log_file
      in (makelog d \<noteq> [] \<longrightarrow>
            files w1 (makelog d) =
              Some ((case files w (makelog d) of None \<Rightarrow> [] | Some old \<Rightarrow> old) @ out))
       \<and> (\<forall>q. q \<noteq> makelog d \<longrightarrow> files w1 q = files w q)
       \<and> (log_file \<noteq> [] \<and> p \<noteq> log_file \<longrightarrow>
            (\<forall>err fs2. shutil_copy2 e p log_file (files w1) = (Inl err, fs2) \<longrightarrow>
               r = (Inl err, w1\<lparr>files := fs2\<rparr>))
          \<and> (\<forall>fs2. shutil_copy2 e p log_file (files w1) = (Inr (), fs2) \<and> fs2 p \<noteq> None \<longrightarrow>
               r = (Inr (), w1\<lparr>files := fs2(p := None)\<rparr>)))
       \<and> (log_file \<noteq> [] \<and> p = log_file \<longrightarrow> r = (Inr (), w1))
       \<and> (log_file = [] \<longrightarrow> r = (Inr (), w1\<lparr>files := (files w1)(p := None)\<rparr>))
       \<and> (makelog d \<noteq> [] \<and> log_file \<noteq> [] \<and> p \<noteq> log_file \<and> makelog d \<noteq> p
            \<and> makelog d \<noteq> log_file
            \<and> shutil_copy2 e p log_file (files w1) =
                (Inr (), (files w1)(log_file := files w1 p)) \<longrightarrow>
            fst r = Inr ()
            \<and> (\<exists>old. files w (makelog d) = Some old
                   \<and> files (snd r) (makelog d) = Some (old @ out))
            \<and> files (snd r) log_file = files w p \<and> files w p \<noteq> None
            \<and> files (snd r) p = None))"
proof -
  note run = move_program_output_steps[OF assms, of log_file]
  have started: "makelog d \<noteq> [] \<Longrightarrow> \<exists>old. files w (makelog d) = Some old"
    using assms(2) by (simp add: isfile_def)
  have there: "files w (norm_path e program_output) \<noteq> None"
    by (rule read_text_file[OF assms(1)])
  show ?thesis
    using started there by (auto simp add: run Let_def files_append_file)
qed

theorem move_program_output_relocates_witness:
  "fst (move_program_output demo_env demo_stata demo_world ''run.log'' ''code/stata.log'') = Inr ()
   \<and> files (snd (move_program_output demo_env demo_stata demo_world ''run.log''
                   ''code/stata.log'')) ''make.log'' = Some ''startedone''
   \<and> files (snd (move_program_output demo_env demo_stata demo_world ''run.log''
                   ''code/stata.log'')) ''code/stata.log'' = Some ''one''
   \<and> files (snd (move_program_output demo_env demo_stata demo_world ''run.log''
                   ''code/stata.log'')) ''run.log'' = None"
proof -
  note m = demo_stata_makelog
  have p: "norm_path demo_env ''run.log'' = ''run.log''"
    by (simp add: demo_env_def)
  have h1: "read_text demo_env demo_world (norm_path demo_env ''run.log'') = Some ''one''"
    by (simp add: demo_read_run_log) (simp add: demo_world_def ascii_def)
  have h2: "makelog demo_stata = [] \<or>
            (makelog_started demo_world \<and> isfile demo_world (makelog demo_stata))"
    by (simp add: m isfile_def) (simp add: demo_world_def)
  have old: "files demo_world ''make.log'' = Some ''started''"
    by (simp add: demo_world_def)
  have out: "files demo_world ''run.log'' = Some ''one''"
    by (simp add: demo_world_def)
  have dir: "dirname ''code/stata.log'' = ''code''"
    by (simp add: dirname_def rfind_def Let_def)
  have copy: "shutil_copy2 demo_env ''run.log'' ''code/stata.log''
                (files (append_file ''make.log'' ''one'' demo_world)) =
              (Inr (), (files (append_file ''make.log'' ''one'' demo_world))
                         (''code/stata.log'' :=
                            files (append_file ''make.log'' ''one'' demo_world) ''run.log''))"
    by (simp add: demo_env_def demo_copy2_def dir files_append_file out)
  from move_program_output_relocates[OF h1 h2, of "''code/stata.log''"] old out copy
  show ?thesis
    by (simp add: Let_def m p)
qed

text \<open>
  C4, as the claim states it, fails twice. Given the same path for the output and for
  \<open>log_file\<close>, written with a backslash, the method does not leave the file in place:
  it is the normalised path, with a slash, that is compared with \<open>log_file\<close>, so the
  file is copied to the path with the backslash and removed. And given a \<open>log_file\<close>
  in a directory that does not exist, the copy raises: the makelog has been appended
  to, the output is neither copied nor removed.
\<close>

theorem move_program_output_same_argument_counterexample:
  "fst (move_program_output demo_env demo_stata demo_world
          (''code'' @ [CHR 0x5C] @ ''run.do'') (''code'' @ [CHR 0x5C] @ ''run.do'')) = Inr ()
   \<and> files demo_world ''code/run.do'' = Some ''display 1''
   \<and> files (snd (move_program_output demo_env demo_stata demo_world
                   (''code'' @ [CHR 0x5C] @ ''run.do'') (''code'' @ [CHR 0x5C] @ ''run.do'')))
       ''code/run.do'' = None
   \<and> files (snd (move_program_output demo_env demo_stata demo_world
                   (''code'' @ [CHR 0x5C] @ ''run.do'') (''code'' @ [CHR 0x5C] @ ''run.do'')))
       (''code'' @ [CHR 0x5C] @ ''run.do'') = Some ''display 1''
   \<and> move_program_output demo_env demo_stata demo_world ''run.log'' ''logs/stata.log'' =
       (Inl (IOError ''logs/stata.log''), append_file ''make.log'' ''one'' demo_world)
   \<and> files (append_file ''make.log'' ''one'' demo_world) ''run.log'' = Some ''one''
   \<and> files (append_file ''make.log'' ''one'' demo_world) ''logs/stata.log'' = None"
proof -
  let ?arg = "''code'' @ [CHR 0x5C] @ ''run.do''"
  note m = demo_stata_makelog
  have ok: "makelog demo_stata = [] \<or>
            (makelog_started demo_world \<and> isfile demo_world (makelog demo_stata))"
    by (simp add: m isfile_def) (simp add: demo_world_def)
  have p: "norm_path demo_env ?arg = ''code/run.do''"
    by (simp add: demo_env_def)
  have f: "files demo_world ''code/run.do'' = Some ''display 1''"
    "files demo_world ''run.log'' = Some ''one''"
    "files demo_world ''logs/stata.log'' = None"
    by (simp_all add: demo_world_def)
  have r1: "read_text demo_env demo_world (norm_path demo_env ?arg) = Some ''display 1''"
    by (simp only: p) (simp add: read_text_def f demo_env_def ascii_def)
  have a: "move_program_output demo_env demo_stata demo_world ?arg ?arg =
      (Inr (), (append_file ''make.log'' ''display 1'' demo_world)
                 \<lparr>files := ((files (append_file ''make.log'' ''display 1'' demo_world))
                              (?arg \<mapsto> ''display 1'')) (''code/run.do'' := None)\<rparr>)"
    by (simp only: move_program_output_steps[OF r1 ok] p)
       (simp add: Let_def m demo_env_def demo_copy2_def files_append_file f
          dirname_def rfind_def)
  have r2: "read_text demo_env demo_world (norm_path demo_env ''run.log'') = Some ''one''"
    by (simp add: demo_read_run_log f ascii_def)
  have p2: "norm_path demo_env ''run.log'' = ''run.log''"
    by (simp add: demo_env_def)
  have dir2: "dirname ''logs/stata.log'' = ''logs''"
    by (simp add: dirname_def rfind_def Let_def)
  have b: "move_program_output demo_env demo_stata demo_world ''run.log'' ''logs/stata.log'' =
      (Inl (IOError ''logs/stata.log''), append_file ''make.log'' ''one'' demo_world)"
    by (simp only: move_program_output_steps[OF r2 ok] p2)
       (simp add: Let_def m demo_env_def demo_copy2_def files_append_file f dir2)
  show ?thesis
    by (simp only: a b) (simp add: files_append_file f)
qed

subsection \<open>The order of the steps of \<^verbatim>\<open>ProgramDirective.__init__\<close>\<close>

lemma directive_init_result:
  "directive_init e kw =
     (if kw_osname kw \<noteq> ''posix'' \<and> kw_osname kw \<noteq> ''nt''
      then Inl (CritError (fmt (crit_error_unknown_system e) (kw_osname kw)))
      else Inr \<lparr>makelog = norm_path e (kw_makelog kw), osname = kw_osname kw,
                 shell = kw_shell kw,
                 log = (if kw_log kw \<noteq> [] then norm_path e (kw_log kw) else kw_log kw),
                 output' = None\<rparr>)"
  by (simp add: directive_init_def check_os_def get_paths_def Let_def)

lemma parse_program_fields:
  "program (parse_program e d) = norm_path e (program d)"
  "program_dir (parse_program e d) = dirname (norm_path e (program d))"
  "program_base (parse_program e d) = basename (norm_path e (program d))"
  "program_name (parse_program e d) = fst (splitext (basename (norm_path e (program d))))"
  "program_ext (parse_program e d) = snd (splitext (basename (norm_path e (program d))))"
  "application (parse_program e d) = application d"
  "executable (parse_program e d) = executable d"
  "option (parse_program e d) = option d"
  "args (parse_program e d) = args d"
  "osname (parse_program e d) = osname d"
  by (simp_all add: parse_program_def Let_def)

lemma with_program_fields:
  "program (with_program b app prog exe opt ar) = prog"
  "application (with_program b app prog exe opt ar) = app"
  "executable (with_program b app prog exe opt ar) = exe"
  "option (with_program b app prog exe opt ar) = opt"
  "args (with_program b app prog exe opt ar) = ar"
  "osname (with_program b app prog exe opt ar) = osname b"
  by (simp_all add: with_program_def)

lemma program_directive_init_steps:
  assumes "directive_init e kw = Inr b"
  shows "program_directive_init e w app prog exe opt ar kw =
     (if \<not> isfile w (norm_path e prog)
      then Inl (CritError (fmt (crit_error_no_file e) (norm_path e prog)))
      else case extensions e app of
             None \<Rightarrow> Inl (KeyError app)
           | Some x \<Rightarrow>
               (if snd (splitext (basename (norm_path e prog))) \<noteq> x
                then Inl (CritError (fmt (crit_error_extension e) (norm_path e prog)))
                else case get_executable e (parse_program e (with_program b app prog exe opt ar)) of
                       Inl err \<Rightarrow> Inl err
                     | Inr d1 \<Rightarrow> get_option e d1))"
  using assms
  by (simp add: program_directive_init_def Let_def check_program_def lookup_def
        parse_program_fields with_program_fields split: option.split)

text \<open>
  C5. The constructor of \<^verbatim>\<open>ProgramDirective\<close> fails at the first step that fails,
  in this order. (1) The constructor of \<^verbatim>\<open>Directive\<close>: an unknown system is the
  error, whatever the program file and the tables are. (2, 3) The program is taken
  apart, and the path that is looked for is the normalised one; if it is no file, the
  error is \<^verbatim>\<open>crit_error_no_file\<close>, whatever the tables of extensions, executables
  and options hold and whether an executable and an option were given. (4) Then the
  extension of the base name is compared with the one the table has for the
  application: \<^verbatim>\<open>crit_error_extension\<close> if they differ (and \<^verbatim>\<open>KeyError\<close> if the
  table has none). (5) Only then come \<^verbatim>\<open>get_executable\<close> and
  \<^verbatim>\<open>get_option\<close>, in this order, on an object that holds the parts of the program
  and, still, the executable and the option that were given.
\<close>

theorem program_directive_init_order:
  "(let r = program_directive_init e w app prog exe opt ar kw;
        p = norm_path e prog;
        known = (kw_osname kw = ''posix'' \<or> kw_osname kw = ''nt'');
        ext = snd (splitext (basename p))
    in (\<not> known \<longrightarrow>
          r = Inl (CritError (fmt (crit_error_unknown_system e) (kw_osname kw))))
     \<and> (known \<and> \<not> isfile w p \<longrightarrow>
          r = Inl (CritError (fmt (crit_error_no_file e) p)))
     \<and> (known \<and> isfile w p \<and> extensions e app = None \<longrightarrow>
          r = Inl (KeyError app))
     \<and> (known \<and> isfile w p \<and> extensions e app \<noteq> None \<and> extensions e app \<noteq> Some ext \<longrightarrow>
          r = Inl (CritError (fmt (crit_error_extension e) p)))
     \<and> (known \<and> isfile w p \<and> extensions e app = Some ext \<longrightarrow>
          (\<exists>b d. directive_init e kw = Inr b
             \<and> d = parse_program e (with_program b app prog exe opt ar)
             \<and> program d = p \<and> program_dir d = dirname p \<and> program_base d = basename p
             \<and> (program_name d, program_ext d) = splitext (basename p)
             \<and> executable d = exe \<and> option d = opt
             \<and> r = (case get_executable e d of
                      Inl err \<Rightarrow> Inl err
                    | Inr d1 \<Rightarrow> get_option e d1))))"
proof (cases "kw_osname kw = ''posix'' \<or> kw_osname kw = ''nt''")
  case False
  then have "directive_init e kw =
      Inl (CritError (fmt (crit_error_unknown_system e) (kw_osname kw)))"
    by (simp add: directive_init_result)
  then have "program_directive_init e w app prog exe opt ar kw =
      Inl (CritError (fmt (crit_error_unknown_system e) (kw_osname kw)))"
    by (simp add: program_directive_init_def)
  with False show ?thesis
    by (simp add: Let_def)
next
  case True
  then obtain b where b: "directive_init e kw = Inr b"
    by (auto simp add: directive_init_result)
  note steps = program_directive_init_steps[OF b, of w app prog exe opt ar]
  from True b show ?thesis
    unfolding Let_def
    by (auto simp add: steps parse_program_fields with_program_fields)
qed

theorem program_directive_init_order_witness:
  "program_directive_init demo_env demo_world ''stata'' ''code/missing.do'' [] []  []
     (demo_kwargs ''windows'') = Inl (CritError ''Unknown system: windows'')
   \<and> program_directive_init
       (demo_env\<lparr>extensions := Map.empty, default_executables := Map.empty,
                  default_options := Map.empty\<rparr>)
       demo_world ''stata'' ''code/missing.do'' [] [] [] (demo_kwargs ''posix'') =
       Inl (CritError ''File not found: code/missing.do'')
   \<and> program_directive_init demo_env demo_world ''stata'' ''doc/paper.lyx'' [] [] []
       (demo_kwargs ''posix'') = Inl (CritError ''Wrong extension: doc/paper.lyx'')
   \<and> program_directive_init demo_env demo_world ''stata'' ''code/run.do'' [] [] ''x''
       (demo_kwargs ''posix'') =
       Inr \<lparr>makelog = ''make.log'', osname = ''posix'', shell = False, log = [],
            output' = None, application = ''stata'', program = ''code/run.do'',
            executable = ''stata-mp'', option = ''-e'', args = ''x'',
            program_dir = ''code'', program_base = ''run.do'', program_name = ''run'',
            program_ext = ''.do''\<rparr>"
proof -
  let ?bare = "demo_env\<lparr>extensions := Map.empty, default_executables := Map.empty,
                         default_options := Map.empty\<rparr>"
  have ext: "snd (splitext (basename ''doc/paper.lyx'')) = ''.lyx''"
    by (simp add: splitext_def basename_def rfind_def Let_def)
  have np: "norm_path demo_env ''code/missing.do'' = ''code/missing.do''"
    "norm_path ?bare ''code/missing.do'' = ''code/missing.do''"
    "norm_path demo_env ''doc/paper.lyx'' = ''doc/paper.lyx''"
    by (simp_all add: demo_env_def)
  have a: "program_directive_init demo_env demo_world ''stata'' ''code/missing.do'' [] [] []
             (demo_kwargs ''windows'') = Inl (CritError ''Unknown system: windows'')"
    using program_directive_init_order
            [of demo_env demo_world "''stata''" "''code/missing.do''" "[]" "[]" "[]"
                "demo_kwargs ''windows''"]
    by (simp add: Let_def demo_kwargs_def) (simp add: demo_env_def fmt_def)
  have b: "program_directive_init ?bare demo_world ''stata'' ''code/missing.do'' [] [] []
             (demo_kwargs ''posix'') = Inl (CritError ''File not found: code/missing.do'')"
    using program_directive_init_order
            [of ?bare demo_world "''stata''" "''code/missing.do''" "[]" "[]" "[]"
                "demo_kwargs ''posix''"]
    by (simp add: Let_def demo_kwargs_def np isfile_def demo_world_def)
       (simp add: demo_env_def fmt_def)
  have c: "program_directive_init demo_env demo_world ''stata'' ''doc/paper.lyx'' [] [] []
             (demo_kwargs ''posix'') = Inl (CritError ''Wrong extension: doc/paper.lyx'')"
    using program_directive_init_order
            [of demo_env demo_world "''stata''" "''doc/paper.lyx''" "[]" "[]" "[]"
                "demo_kwargs ''posix''"]
    by (simp add: Let_def demo_kwargs_def np ext isfile_def demo_world_def)
       (simp add: demo_env_def fmt_def)
  have parts: "basename ''code/run.do'' = ''run.do''" "dirname ''code/run.do'' = ''code''"
    "splitext ''run.do'' = (''run'', ''.do'')"
    by (simp_all add: splitext_def basename_def dirname_def rfind_def Let_def)
  have base: "directive_init demo_env (demo_kwargs ''posix'') =
                Inr \<lparr>makelog = ''make.log'', osname = ''posix'', shell = False, log = [],
                     output' = None\<rparr>"
    by (simp add: directive_init_result demo_kwargs_def) (simp add: demo_env_def)
  have d: "program_directive_init demo_env demo_world ''stata'' ''code/run.do'' [] [] ''x''
             (demo_kwargs ''posix'') =
           Inr \<lparr>makelog = ''make.log'', osname = ''posix'', shell = False, log = [],
                output' = None, application = ''stata'', program = ''code/run.do'',
                executable = ''stata-mp'', option = ''-e'', args = ''x'',
                program_dir = ''code'', program_base = ''run.do'', program_name = ''run'',
                program_ext = ''.do''\<rparr>"
    using program_directive_init_order
            [of demo_env demo_world "''stata''" "''code/run.do''" "[]" "[]" "''x''"
                "demo_kwargs ''posix''"]
    by (simp add: Let_def base isfile_def)
       (simp add: demo_kwargs_def demo_env_def demo_world_def parts parse_program_def
          with_program_def get_executable_def get_option_def lookup_def Let_def)
  from a b c d show ?thesis by simp
qed

subsection \<open>The document type and the PDF directory of a LyX directive\<close>

lemma lyx_directive_init_after_parent:
  assumes "program_directive_init_kw e w kw = Inr pd"
  shows "lyx_directive_init e w dt po kw =
           (get_pdfout e (fst (check_doctype
                                 (program_directive.extend pd (lyx_directive.fields dt po)) w)),
            snd (check_doctype (program_directive.extend pd (lyx_directive.fields dt po)) w))"
  using assms by (simp add: lyx_directive_init_def Let_def)

lemma extend_fields:
  "doctype (program_directive.extend pd (lyx_directive.fields dt po)) = dt"
  "pdfout (program_directive.extend pd (lyx_directive.fields dt po)) = po"
  "(program_directive.extend pd (lyx_directive.fields dt po))\<lparr>doctype := dt'\<rparr> =
     program_directive.extend pd (lyx_directive.fields dt' po)"
  "(program_directive.extend pd (lyx_directive.fields dt po))\<lparr>pdfout := po'\<rparr> =
     program_directive.extend pd (lyx_directive.fields dt po')"
  by (cases pd, simp add: program_directive.defs lyx_directive.defs)+

lemma demo_lyx_parent:
  "program_directive_init_kw demo_env demo_world demo_lyx_kwargs =
     Inr \<lparr>makelog = ''make.log'', osname = ''posix'', shell = False, log = [],
          output' = None, application = ''lyx'', program = ''doc/paper.lyx'',
          executable = ''lyx'', option = ''-e pdf2'', args = [],
          program_dir = ''doc'', program_base = ''paper.lyx'', program_name = ''paper'',
          program_ext = ''.lyx''\<rparr>"
proof -
  have parts: "basename ''doc/paper.lyx'' = ''paper.lyx''" "dirname ''doc/paper.lyx'' = ''doc''"
    "splitext ''paper.lyx'' = (''paper'', ''.lyx'')"
    by (simp_all add: splitext_def basename_def dirname_def rfind_def Let_def)
  have base: "directive_init demo_env demo_lyx_kwargs =
                Inr \<lparr>makelog = ''make.log'', osname = ''posix'', shell = False, log = [],
                     output' = None\<rparr>"
    by (simp add: directive_init_result demo_lyx_kwargs_def) (simp add: demo_env_def)
  show ?thesis
    by (simp add: program_directive_init_kw_def program_directive_init_steps[OF base])
       (simp add: demo_lyx_kwargs_def demo_env_def demo_world_def isfile_def parts
          parse_program_def with_program_def get_executable_def get_option_def lookup_def
          Let_def)
qed

text \<open>
  C8, as the code has it. Let the constructor of \<^verbatim>\<open>ProgramDirective\<close> succeed and
  the settings hold \<^verbatim>\<open>temp_dir\<close>. A \<^verbatim>\<open>LyxDirective\<close> constructed with the document
  type \<^verbatim>\<open>handout\<close> or \<^verbatim>\<open>comments\<close> keeps its document type, prints nothing, and
  has for \<^verbatim>\<open>pdfout\<close> the normalised \<^verbatim>\<open>temp_dir\<close>; the argument \<open>po\<close> given for
  \<^verbatim>\<open>pdfout\<close> does not occur in the result.
\<close>

theorem lyx_directive_init_pdfout_temp:
  assumes "program_directive_init_kw e w kw = Inr pd"
    and "dt = ''handout'' \<or> dt = ''comments''"
    and "settings e ''temp_dir'' = Some t"
  shows "lyx_directive_init e w dt po kw =
           (Inr (program_directive.extend pd (lyx_directive.fields dt (norm_path e t))), w)
         \<and> pdfout (program_directive.extend pd (lyx_directive.fields dt (norm_path e t))) =
             norm_path e t
         \<and> doctype (program_directive.extend pd (lyx_directive.fields dt (norm_path e t))) = dt"
proof -
  from assms(2) have valid: "check_doctype (program_directive.extend pd (lyx_directive.fields dt po)) w =
      (program_directive.extend pd (lyx_directive.fields dt po), w)"
    by (auto simp add: check_doctype_def extend_fields)
  from assms(2) have "dt \<noteq> []"
    by auto
  with assms(3) have "get_pdfout e (program_directive.extend pd (lyx_directive.fields dt po)) =
      Inr (program_directive.extend pd (lyx_directive.fields dt (norm_path e t)))"
    by (simp add: get_pdfout_def lookup_def extend_fields)
  then show ?thesis
    by (simp add: lyx_directive_init_after_parent[OF assms(1)] valid extend_fields)
qed

theorem lyx_directive_init_pdfout_temp_witness:
  "lyx_directive_init demo_env demo_world ''handout'' ''my/pdf'' demo_lyx_kwargs =
     (Inr \<lparr>makelog = ''make.log'', osname = ''posix'', shell = False, log = [],
           output' = None, application = ''lyx'', program = ''doc/paper.lyx'',
           executable = ''lyx'', option = ''-e pdf2'', args = [],
           program_dir = ''doc'', program_base = ''paper.lyx'', program_name = ''paper'',
           program_ext = ''.lyx'', doctype = ''handout'', pdfout = ''../temp''\<rparr>,
      demo_world)"
proof -
  have t: "settings demo_env ''temp_dir'' = Some ''../temp''"
    by (simp add: demo_env_def)
  have n: "norm_path demo_env ''../temp'' = ''../temp''"
    by (simp add: demo_env_def)
  have v: "''handout'' = ''handout'' \<or> ''handout'' = ''comments''"
    by simp
  from lyx_directive_init_pdfout_temp[OF demo_lyx_parent v t, of "''my/pdf''"]
  show ?thesis
    by (simp add: n program_directive.defs lyx_directive.defs)
qed

text \<open>
  C8, as the claim states it, fails for a document type that is not empty and not one of
  the two known ones: \<^verbatim>\<open>check_doctype\<close> runs before \<^verbatim>\<open>get_pdfout\<close> and has made
  the document type empty by then, so the directory that was given stays. With the
  document type \<^verbatim>\<open>bogus\<close> and the directory \<^verbatim>\<open>my/pdf\<close>, \<^verbatim>\<open>pdfout\<close> is
  \<^verbatim>\<open>my/pdf\<close>, and the temporary directory is \<^verbatim>\<open>../temp\<close>.
\<close>

theorem lyx_directive_init_bogus_counterexample:
  "''bogus'' \<noteq> []
   \<and> lyx_directive_init demo_env demo_world ''bogus'' ''my/pdf'' demo_lyx_kwargs =
     (Inr \<lparr>makelog = ''make.log'', osname = ''posix'', shell = False, log = [],
           output' = None, application = ''lyx'', program = ''doc/paper.lyx'',
           executable = ''lyx'', option = ''-e pdf2'', args = [],
           program_dir = ''doc'', program_base = ''paper.lyx'', program_name = ''paper'',
           program_ext = ''.lyx'', doctype = [], pdfout = ''my/pdf''\<rparr>,
      demo_world\<lparr>console := [doctype_warning ''bogus'']\<rparr>)
   \<and> settings demo_env ''temp_dir'' = Some ''../temp''
   \<and> norm_path demo_env ''../temp'' = ''../temp''
   \<and> ''my/pdf'' \<noteq> ''../temp''"
proof -
  have "lyx_directive_init demo_env demo_world ''bogus'' ''my/pdf'' demo_lyx_kwargs =
     (Inr \<lparr>makelog = ''make.log'', osname = ''posix'', shell = False, log = [],
           output' = None, application = ''lyx'', program = ''doc/paper.lyx'',
           executable = ''lyx'', option = ''-e pdf2'', args = [],
           program_dir = ''doc'', program_base = ''paper.lyx'', program_name = ''paper'',
           program_ext = ''.lyx'', doctype = [], pdfout = ''my/pdf''\<rparr>,
      demo_world\<lparr>console := [doctype_warning ''bogus'']\<rparr>)"
    by (simp add: lyx_directive_init_def demo_lyx_parent Let_def check_doctype_def
          get_pdfout_def program_directive.defs lyx_directive.defs)
       (simp add: demo_env_def demo_world_def)
  then show ?thesis
    by (simp add: demo_env_def)
qed



end
